theory Spec2Isabelle
  imports Main
begin

section \<open>Type descriptors as seen through reflection\<close>

text \<open>
  The values of Go's \<^verbatim>\<open>reflect.Kind\<close>, in the order of the standard library, and the
  names \<^verbatim>\<open>Kind.String()\<close> prints for them.
\<close>

datatype kind =
    Invalid | Bool
  | Int_kind | Int8 | Int16 | Int32 | Int64
  | Uint | Uint8 | Uint16 | Uint32 | Uint64 | Uintptr
  | Float32 | Float64 | Complex64 | Complex128
  | Array | Chan | Func | Interface | Map | Pointer | Slice | String | Struct
  | UnsafePointer

fun kindString :: "kind \<Rightarrow> string" where
  "kindString Invalid = ''invalid''"
| "kindString Bool = ''bool''"
| "kindString Int_kind = ''int''"
| "kindString Int8 = ''int8''"
| "kindString Int16 = ''int16''"
| "kindString Int32 = ''int32''"
| "kindString Int64 = ''int64''"
| "kindString Uint = ''uint''"
| "kindString Uint8 = ''uint8''"
| "kindString Uint16 = ''uint16''"
| "kindString Uint32 = ''uint32''"
| "kindString Uint64 = ''uint64''"
| "kindString Uintptr = ''uintptr''"
| "kindString Float32 = ''float32''"
| "kindString Float64 = ''float64''"
| "kindString Complex64 = ''complex64''"
| "kindString Complex128 = ''complex128''"
| "kindString Array = ''array''"
| "kindString Chan = ''chan''"
| "kindString Func = ''func''"
| "kindString Interface = ''interface''"
| "kindString Map = ''map''"
| "kindString Pointer = ''ptr''"
| "kindString Slice = ''slice''"
| "kindString String = ''string''"
| "kindString Struct = ''struct''"
| "kindString UnsafePointer = ''unsafe.Pointer''"

text \<open>A panic carries the string the code passes to \<^verbatim>\<open>panic\<close>.\<close>

datatype panic = Panic string

text \<open>
  A \<^verbatim>\<open>reflect.Type\<close> is modelled by what \<^verbatim>\<open>directus.go\<close> reads from it. Every
  descriptor stores the text \<^verbatim>\<open>String()\<close> returns (\<open>TypeString\<close>). A slice and a
  pointer have their element type \<^verbatim>\<open>Elem()\<close>. A struct has its fields in declaration
  order (\<open>Fields\<close>, which \<^verbatim>\<open>NumField\<close> and \<^verbatim>\<open>Field\<close> read) and the answers to the two
  questions \<^verbatim>\<open>structFields\<close> asks of a struct type only:
  \<^item> \<open>ConvertibleToTime\<close>: the result of \<^verbatim>\<open>ConvertibleTo(reflect.TypeOf(t))\<close> for
    \<^verbatim>\<open>var t Time\<close> (the type \<^verbatim>\<open>Time\<close> is declared outside \<^verbatim>\<open>directus.go\<close>);
  \<^item> \<open>isOpt\<close>: \<open>None\<close> when the type does not implement the interface \<^verbatim>\<open>isOpt\<close>, and
    \<open>Some m\<close> when it does, \<open>m\<close> being its method \<^verbatim>\<open>fields\<close> on the zero value that
    \<^verbatim>\<open>reflect.New\<close> allocates; a method of a caller's type may itself panic.
  A \<^verbatim>\<open>reflect.StructField\<close> has its \<^verbatim>\<open>Name\<close>, its \<^verbatim>\<open>Tag\<close> (the key/value pairs of
  the tag string, in order) and its \<^verbatim>\<open>Type\<close>.
\<close>

datatype rtype =
    BoolT (TypeString: string)
  | IntT (TypeString: string) | Int8T (TypeString: string) | Int16T (TypeString: string)
  | Int32T (TypeString: string) | Int64T (TypeString: string)
  | UintT (TypeString: string) | Uint8T (TypeString: string) | Uint16T (TypeString: string)
  | Uint32T (TypeString: string) | Uint64T (TypeString: string) | UintptrT (TypeString: string)
  | Float32T (TypeString: string) | Float64T (TypeString: string)
  | Complex64T (TypeString: string) | Complex128T (TypeString: string)
  | ArrayT (TypeString: string) nat rtype
  | ChanT (TypeString: string) rtype
  | FuncT (TypeString: string)
  | InterfaceT (TypeString: string)
  | MapT (TypeString: string) rtype rtype
  | PointerT (TypeString: string) (Elem: rtype)
  | SliceT (TypeString: string) (Elem: rtype)
  | StringT (TypeString: string)
  | StructT (TypeString: string) (Fields: "structField list") (ConvertibleToTime: bool)
      (isOpt: "(string \<Rightarrow> panic + string list) option")
  | UnsafePointerT (TypeString: string)
and structField =
    StructField (Name: string) (Tag: "(string \<times> string) list") (Type: rtype)

fun Kind :: "rtype \<Rightarrow> kind" where
  "Kind (BoolT _) = Bool"
| "Kind (IntT _) = Int_kind"
| "Kind (Int8T _) = Int8"
| "Kind (Int16T _) = Int16"
| "Kind (Int32T _) = Int32"
| "Kind (Int64T _) = Int64"
| "Kind (UintT _) = Uint"
| "Kind (Uint8T _) = Uint8"
| "Kind (Uint16T _) = Uint16"
| "Kind (Uint32T _) = Uint32"
| "Kind (Uint64T _) = Uint64"
| "Kind (UintptrT _) = Uintptr"
| "Kind (Float32T _) = Float32"
| "Kind (Float64T _) = Float64"
| "Kind (Complex64T _) = Complex64"
| "Kind (Complex128T _) = Complex128"
| "Kind (ArrayT _ _ _) = Array"
| "Kind (ChanT _ _) = Chan"
| "Kind (FuncT _) = Func"
| "Kind (InterfaceT _) = Interface"
| "Kind (MapT _ _ _) = Map"
| "Kind (PointerT _ _) = Pointer"
| "Kind (SliceT _ _) = Slice"
| "Kind (StringT _) = String"
| "Kind (StructT _ _ _ _) = Struct"
| "Kind (UnsafePointerT _) = UnsafePointer"

text \<open>\<^verbatim>\<open>StructTag.Lookup\<close>: the value of the first pair with the key, if there is one.\<close>

definition Lookup :: "(string \<times> string) list \<Rightarrow> string \<Rightarrow> string option" where
  "Lookup tag key = map_of tag key"

section \<open>Field-path derivation\<close>

text \<open>
  \<^verbatim>\<open>structFields\<close> and \<^verbatim>\<open>iterateFields\<close> of \<^verbatim>\<open>directus.go\<close>. The constant
  \<^verbatim>\<open>tagName\<close> is declared outside that file and is the first parameter here. The result
  is \<open>Inl\<close> of the panic when the code panics and \<open>Inr\<close> of the returned slice otherwise.
  \<open>iterateFieldsLoop\<close> is the \<^verbatim>\<open>for\<close> loop of \<^verbatim>\<open>iterateFields\<close> over the remaining
  fields, with the slice \<^verbatim>\<open>fields\<close> built so far; \<^verbatim>\<open>NumField\<close> panics on a type that is
  not a struct.
\<close>

function structFields :: "string \<Rightarrow> structField \<Rightarrow> string \<Rightarrow> panic + string list"
  and iterateFields :: "string \<Rightarrow> rtype \<Rightarrow> string \<Rightarrow> panic + string list"
  and iterateFieldsLoop ::
    "string \<Rightarrow> structField list \<Rightarrow> string \<Rightarrow> string list \<Rightarrow> panic + string list"
where
  "structFields tagName f prefix =
    (let tagVal = (case Lookup (Tag f) tagName of Some v \<Rightarrow> v | None \<Rightarrow> Name f) in
     if Kind (Type f) = Struct then
       (let isTime = ConvertibleToTime (Type f);
            isOptional = isOpt (Type f) in
        case isOptional of
          Some val \<Rightarrow>
            if prefix = [] then val tagVal else val (prefix @ ''.'' @ tagVal)
        | None \<Rightarrow>
            if isTime then Inr [prefix]
            else
              (let p = (if prefix \<noteq> [] then prefix @ ''.'' @ tagVal else tagVal) in
               iterateFields tagName (Type f) p))
     else if Kind (Type f) = Slice then
       (let p = (if prefix \<noteq> [] then prefix @ ''.'' @ tagVal else tagVal) in
        if Kind (Elem (Type f)) = Struct then iterateFields tagName (Elem (Type f)) p
        else Inr [p])
     else if Kind (Type f) \<in>
         {Bool, Int_kind, Int8, Int16, Int32, Int64,
          Uint, Uint8, Uint16, Uint32, Uint64, Uintptr, Float32, Float64,
          String, Map} then
       (let v = (if prefix \<noteq> [] then prefix @ ''.'' @ tagVal else tagVal) in Inr [v])
     else if Kind (Type f) = Pointer then
       (let t = TypeString (Elem (Type f)) in
        Inl (Panic (Name f @ ''('' @ t @ '','' @ prefix
               @ ''): pointer is not supported, use directus.Optional instead'')))
     else Inl (Panic (kindString (Kind (Type f)) @ '' not implemented'')))"
| "iterateFields tagName t prefix =
    (if Kind t = Struct then iterateFieldsLoop tagName (Fields t) prefix []
     else Inl (Panic (''reflect: NumField of non-struct type '' @ TypeString t)))"
| "iterateFieldsLoop tagName [] prefix acc = Inr acc"
| "iterateFieldsLoop tagName (f # fs) prefix acc =
    (case structFields tagName f prefix of
       Inl e \<Rightarrow> Inl e
     | Inr xs \<Rightarrow> iterateFieldsLoop tagName fs prefix (acc @ xs))"
  by pat_completeness auto

termination
proof (relation "measure (\<lambda>x. case x of
      Inl (tagName, f, prefix) \<Rightarrow> size f
    | Inr (Inl (tagName, t, prefix)) \<Rightarrow> size t
    | Inr (Inr (tagName, fs, prefix, acc)) \<Rightarrow> size_list size fs)", goal_cases)
  case 1
  show ?case by simp
next
  case (2 tagName f prefix)
  show ?case by (cases f) simp
next
  case (3 tagName f prefix)
  then show ?case by (cases f; cases "Type f") simp_all
next
  case (4 tagName t prefix)
  then show ?case by (cases t) simp_all
next
  case (5 tagName f fs prefix acc)
  show ?case by simp
next
  case (6 tagName f fs prefix acc)
  show ?case by simp
qed

declare structFields.simps [simp del]
declare iterateFields.simps [simp del]

text \<open>
  The notions the specification uses to state the properties of the derivation: the remote
  name of a field (the rename tag's value when the tag is present, else the declared name),
  a path below a prefix, and the plain scalar kinds (bool, the integer and float widths,
  string).
\<close>

definition remoteName :: "string \<Rightarrow> structField \<Rightarrow> string" where
  "remoteName tagName f = (case Lookup (Tag f) tagName of Some v \<Rightarrow> v | None \<Rightarrow> Name f)"

definition scoped :: "string \<Rightarrow> string \<Rightarrow> string" where
  "scoped prefix name = (if prefix = [] then name else prefix @ ''.'' @ name)"

definition scalarKinds :: "kind set" where
  "scalarKinds =
    {Bool, Int_kind, Int8, Int16, Int32, Int64,
     Uint, Uint8, Uint16, Uint32, Uint64, Uintptr, Float32, Float64, String}"

text \<open>
  A plain leaf is a field the derivation gives one path of its own without looking further:
  a scalar, a map, or a slice of anything but structs.
\<close>

definition plainLeaf :: "structField \<Rightarrow> bool" where
  "plainLeaf g =
    (Kind (Type g) \<in> scalarKinds \<union> {Map}
     \<or> (Kind (Type g) = Slice \<and> Kind (Elem (Type g)) \<noteq> Struct))"

section \<open>The client\<close>

text \<open>
  The \<^verbatim>\<open>Version\<close> constants and the struct \<^verbatim>\<open>API\<close>. The unexported slice
  \<^verbatim>\<open>queryFields\<close> is \<open>None\<close> when it is \<^verbatim>\<open>nil\<close>. The pointer \<^verbatim>\<open>HTTPClient\<close> is read
  by \<^verbatim>\<open>executeRequest\<close> only, which is a parameter of the operations below.
\<close>

datatype Version = V8 | V9

record API =
  Scheme :: string
  Host :: string
  Namespace :: string
  CollectionName :: string
  BearerToken :: string
  queryFields :: "string list option"
  debug :: bool
  Version :: Version

text \<open>
  The clients live in a store: a pointer to a client is an index into the list of the client
  structs allocated so far. A method with a pointer receiver reads and writes the struct its
  pointer names. A method with a value receiver has its own variable \<^verbatim>\<open>d\<close>, a new struct
  that starts as a copy of the caller's.
\<close>

type_synonym store = "API list"

text \<open>
  \<^verbatim>\<open>strings.Join\<close>, and \<^verbatim>\<open>reflect.TypeOf\<close> of the zero value of the type parameter
  \<^verbatim>\<open>R\<close>: the zero value of an interface type is the nil interface, whose type descriptor is
  nil.
\<close>

fun Join :: "string list \<Rightarrow> string \<Rightarrow> string" where
  "Join [] sep = []"
| "Join [x] sep = x"
| "Join (x # y # ys) sep = x @ sep @ Join (y # ys) sep"

definition TypeOf_zero :: "rtype \<Rightarrow> rtype option" where
  "TypeOf_zero R = (if Kind R = Interface then None else Some R)"

definition nilDereference :: panic where
  "nilDereference = Panic ''runtime error: invalid memory address or nil pointer dereference''"

text \<open>
  \<^verbatim>\<open>jsonFieldsR\<close> has the pointer receiver \<^verbatim>\<open>d\<close>: it returns the paths and the store in
  which the struct at \<^verbatim>\<open>d\<close> holds them.
\<close>

definition jsonFieldsR ::
  "string \<Rightarrow> rtype \<Rightarrow> store \<Rightarrow> nat \<Rightarrow> panic + (string list \<times> store)" where
  "jsonFieldsR tagName R s d =
    (if length s \<le> d then Inl nilDereference
     else case queryFields (s ! d) of
       None \<Rightarrow>
         (case TypeOf_zero R of
            None \<Rightarrow> Inl nilDereference
          | Some t \<Rightarrow>
              (case iterateFields tagName t [] of
                 Inl e \<Rightarrow> Inl e
               | Inr fs \<Rightarrow> Inr (fs, s[d := (s ! d)\<lparr>queryFields := Some fs\<rparr>])))
     | Some fs \<Rightarrow> Inr (fs, s))"

text \<open>
  The struct \<^verbatim>\<open>request\<close> is declared outside \<^verbatim>\<open>directus.go\<close>, which builds it by
  position: the context, the HTTP method, the URL, the query parameters and the body. The body
  is the write model, a map of partials, or nil. The constants of \<^verbatim>\<open>net/http\<close> follow.
\<close>

datatype ('w, 'p) body = NoBody | ItemBody 'w | PartialsBody 'p

record ('c, 'w, 'p) request =
  reqCtx :: 'c
  reqMethod :: string
  reqURL :: string
  reqParams :: "string \<rightharpoonup> string"
  reqBody :: "('w, 'p) body"

definition MethodGet :: string where "MethodGet = ''GET''"
definition MethodPost :: string where "MethodPost = ''POST''"
definition MethodPatch :: string where "MethodPatch = ''PATCH''"
definition StatusOK :: nat where "StatusOK = 200"

text \<open>
  Errors. \<open>Errorf msg e\<close> is \<^verbatim>\<open>fmt.Errorf(msg + "%w", e)\<close>. The other three are
  modelled from the spec: the error kinds of \<^verbatim>\<open>executeRequest\<close>, which is declared
  outside \<^verbatim>\<open>directus.go\<close> (transport failure, unexpected status with the actual and the
  expected one, response-decoding failure).
\<close>

datatype error =
    TransportFailure
  | UnexpectedStatus nat nat
  | DecodingFailure
  | Errorf string error

text \<open>
  The operations that return the read model. Each has the value receiver \<^verbatim>\<open>d\<close>: the
  caller's client is the struct at \<open>a\<close>, and \<^verbatim>\<open>d\<close> is a new struct at the end of the
  store. Their parameters, besides the Go ones: \<^verbatim>\<open>tagName\<close>; the type parameter \<^verbatim>\<open>R\<close> as
  its descriptor and its zero value \<^verbatim>\<open>empty\<close> (\<open>emptyR\<close>); the method \<^verbatim>\<open>executeRequest\<close>, as the
  function from the receiver, the request and the expected status to the error it returns and
  the \<^verbatim>\<open>Data\<close> it leaves in \<^verbatim>\<open>respBody\<close>; and, where the URL has the
  \<^verbatim>\<open>id\<close> (\<open>pk\<close>), what \<^verbatim>\<open>%v\<close> prints for it. The result is the panic, or
  the two values returned and the store.
\<close>

definition Insert ::
  "string \<Rightarrow> rtype \<Rightarrow> 'r \<Rightarrow> (API \<Rightarrow> ('c, 'w, 'p) request \<Rightarrow> nat \<Rightarrow> error option \<times> 'r) \<Rightarrow>
   store \<Rightarrow> nat \<Rightarrow> 'c \<Rightarrow> 'w \<Rightarrow> panic + (('r \<times> error option) \<times> store)" where
  "Insert tagName R emptyR executeRequest s a ctx item =
    (if length s \<le> a then Inl nilDereference
     else
       let d = length s;
           s = s @ [s ! a];
           u = Scheme (s ! d) @ ''://'' @ Host (s ! d) @ ''/'' @ Namespace (s ! d)
               @ ''/items/'' @ CollectionName (s ! d)
       in case jsonFieldsR tagName R s d of
            Inl e \<Rightarrow> Inl e
          | Inr (fs, s) \<Rightarrow>
              (let req = \<lparr>reqCtx = ctx, reqMethod = MethodPost, reqURL = u,
                         reqParams = [''fields'' \<mapsto> Join fs '',''], reqBody = ItemBody item\<rparr>;
                   (err, respBody) = executeRequest (s ! d) req StatusOK
               in case err of
                    Some e \<Rightarrow> Inr ((emptyR, Some (Errorf ''execute insert request: '' e)), s)
                  | None \<Rightarrow> Inr ((respBody, None), s)))"

definition Create ::
  "string \<Rightarrow> rtype \<Rightarrow> 'r \<Rightarrow> (API \<Rightarrow> ('c, 'w, 'p) request \<Rightarrow> nat \<Rightarrow> error option \<times> 'r) \<Rightarrow>
   store \<Rightarrow> nat \<Rightarrow> 'c \<Rightarrow> 'p \<Rightarrow> panic + (('r \<times> error option) \<times> store)" where
  "Create tagName R emptyR executeRequest s a ctx partials =
    (if length s \<le> a then Inl nilDereference
     else
       let d = length s;
           s = s @ [s ! a];
           u = Scheme (s ! d) @ ''://'' @ Host (s ! d) @ ''/'' @ Namespace (s ! d)
               @ ''/items/'' @ CollectionName (s ! d)
       in case jsonFieldsR tagName R s d of
            Inl e \<Rightarrow> Inl e
          | Inr (fs, s) \<Rightarrow>
              (let req = \<lparr>reqCtx = ctx, reqMethod = MethodPost, reqURL = u,
                         reqParams = [''fields'' \<mapsto> Join fs '',''], reqBody = PartialsBody partials\<rparr>;
                   (err, respBody) = executeRequest (s ! d) req StatusOK
               in case err of
                    Some e \<Rightarrow> Inr ((emptyR, Some (Errorf ''execute create request: '' e)), s)
                  | None \<Rightarrow> Inr ((respBody, None), s)))"

definition GetByID ::
  "string \<Rightarrow> rtype \<Rightarrow> 'r \<Rightarrow> ('pk \<Rightarrow> string) \<Rightarrow> (API \<Rightarrow> ('c, 'w, 'p) request \<Rightarrow> nat \<Rightarrow> error option \<times> 'r) \<Rightarrow>
   store \<Rightarrow> nat \<Rightarrow> 'c \<Rightarrow> 'pk \<Rightarrow> panic + (('r \<times> error option) \<times> store)" where
  "GetByID tagName R emptyR formatV executeRequest s a ctx pk =
    (if length s \<le> a then Inl nilDereference
     else
       let d = length s;
           s = s @ [s ! a];
           u = Scheme (s ! d) @ ''://'' @ Host (s ! d) @ ''/'' @ Namespace (s ! d)
               @ ''/items/'' @ CollectionName (s ! d) @ ''/'' @ formatV pk
       in case jsonFieldsR tagName R s d of
            Inl e \<Rightarrow> Inl e
          | Inr (fs, s) \<Rightarrow>
              (let req = \<lparr>reqCtx = ctx, reqMethod = MethodGet, reqURL = u,
                         reqParams = [''fields'' \<mapsto> Join fs '',''], reqBody = NoBody\<rparr>;
                   (err, respBody) = executeRequest (s ! d) req StatusOK
               in case err of
                    Some e \<Rightarrow> Inr ((emptyR, Some (Errorf ''execute get by id request: '' e)), s)
                  | None \<Rightarrow> Inr ((respBody, None), s)))"

definition Update ::
  "string \<Rightarrow> rtype \<Rightarrow> 'r \<Rightarrow> ('pk \<Rightarrow> string) \<Rightarrow> (API \<Rightarrow> ('c, 'w, 'p) request \<Rightarrow> nat \<Rightarrow> error option \<times> 'r) \<Rightarrow>
   store \<Rightarrow> nat \<Rightarrow> 'c \<Rightarrow> 'pk \<Rightarrow> 'p \<Rightarrow> panic + (('r \<times> error option) \<times> store)" where
  "Update tagName R emptyR formatV executeRequest s a ctx pk partials =
    (if length s \<le> a then Inl nilDereference
     else
       let d = length s;
           s = s @ [s ! a];
           u = Scheme (s ! d) @ ''://'' @ Host (s ! d) @ ''/'' @ Namespace (s ! d)
               @ ''/items/'' @ CollectionName (s ! d) @ ''/'' @ formatV pk
       in case jsonFieldsR tagName R s d of
            Inl e \<Rightarrow> Inl e
          | Inr (fs, s) \<Rightarrow>
              (let req = \<lparr>reqCtx = ctx, reqMethod = MethodPatch, reqURL = u,
                         reqParams = [''fields'' \<mapsto> Join fs '',''], reqBody = PartialsBody partials\<rparr>;
                   (err, respBody) = executeRequest (s ! d) req StatusOK
               in case err of
                    Some e \<Rightarrow> Inr ((emptyR, Some (Errorf ''execute update request: '' e)), s)
                  | None \<Rightarrow> Inr ((respBody, None), s)))"

definition Set ::
  "string \<Rightarrow> rtype \<Rightarrow> 'r \<Rightarrow> ('pk \<Rightarrow> string) \<Rightarrow> (API \<Rightarrow> ('c, 'w, 'p) request \<Rightarrow> nat \<Rightarrow> error option \<times> 'r) \<Rightarrow>
   store \<Rightarrow> nat \<Rightarrow> 'c \<Rightarrow> 'pk \<Rightarrow> 'w \<Rightarrow> panic + (('r \<times> error option) \<times> store)" where
  "Set tagName R emptyR formatV executeRequest s a ctx pk item =
    (if length s \<le> a then Inl nilDereference
     else
       let d = length s;
           s = s @ [s ! a];
           u = Scheme (s ! d) @ ''://'' @ Host (s ! d) @ ''/'' @ Namespace (s ! d)
               @ ''/items/'' @ CollectionName (s ! d) @ ''/'' @ formatV pk
       in case jsonFieldsR tagName R s d of
            Inl e \<Rightarrow> Inl e
          | Inr (fs, s) \<Rightarrow>
              (let req = \<lparr>reqCtx = ctx, reqMethod = MethodPatch, reqURL = u,
                         reqParams = [''fields'' \<mapsto> Join fs '',''], reqBody = ItemBody item\<rparr>;
                   (err, respBody) = executeRequest (s ! d) req StatusOK
               in case err of
                    Some e \<Rightarrow> Inr ((emptyR, Some (Errorf ''execute set request: '' e)), s)
                  | None \<Rightarrow> Inr ((respBody, None), s)))"

text \<open>
  \<^verbatim>\<open>Items\<close>. The method \<^verbatim>\<open>asKeyValue\<close> of the query is declared outside
  \<^verbatim>\<open>directus.go\<close> and is a parameter: it returns a map, \<open>None\<close> when the map is nil, and
  writing to a nil map panics. The slice returned is \<open>None\<close> when it is \<^verbatim>\<open>nil\<close>.
\<close>

definition Items ::
  "string \<Rightarrow> rtype \<Rightarrow> ('q \<Rightarrow> Version \<Rightarrow> (string \<rightharpoonup> string) option) \<Rightarrow>
   (API \<Rightarrow> ('c, 'w, 'p) request \<Rightarrow> nat \<Rightarrow> error option \<times> 'r list option) \<Rightarrow>
   store \<Rightarrow> nat \<Rightarrow> 'c \<Rightarrow> 'q \<Rightarrow> panic + (('r list option \<times> error option) \<times> store)" where
  "Items tagName R asKeyValue executeRequest s a ctx q =
    (if length s \<le> a then Inl nilDereference
     else
       let d = length s;
           s = s @ [s ! a];
           u = Scheme (s ! d) @ ''://'' @ Host (s ! d) @ ''/'' @ Namespace (s ! d)
               @ ''/items/'' @ CollectionName (s ! d);
           qv = asKeyValue q (Version (s ! d))
       in case jsonFieldsR tagName R s d of
            Inl e \<Rightarrow> Inl e
          | Inr (fs, s) \<Rightarrow>
              (case qv of
                 None \<Rightarrow> Inl (Panic ''assignment to entry in nil map'')
               | Some qv \<Rightarrow>
                   (let qv = qv(''fields'' \<mapsto> Join fs '','');
                        req = \<lparr>reqCtx = ctx, reqMethod = MethodGet, reqURL = u,
                               reqParams = qv, reqBody = NoBody\<rparr>;
                        (err, respBody) = executeRequest (s ! d) req StatusOK
                    in case err of
                         Some e \<Rightarrow> Inr ((None, Some (Errorf ''execute items request: '' e)), s)
                       | None \<Rightarrow> Inr ((respBody, None), s))))"

text \<open>
  Modelled from the spec: \<^verbatim>\<open>executeRequest\<close>, which is declared outside
  \<^verbatim>\<open>directus.go\<close>. The spec has it execute the request, check the expected status and
  decode the envelope, and return any unexpected status or transport or decoding failure as an
  error. The remote side is the function \<open>transport\<close> from the request to what comes back:
  nothing (\<open>NoReply\<close>), or a status with the \<^verbatim>\<open>data\<close> of the envelope (\<open>None\<close> when the
  body does not decode). \<open>zero\<close> is what \<^verbatim>\<open>respBody\<close> holds before the call.
\<close>

datatype 'a reply = NoReply | Reply nat "'a option"

definition executeRequest ::
  "(('c, 'w, 'p) request \<Rightarrow> 'a reply) \<Rightarrow> 'a \<Rightarrow> API \<Rightarrow> ('c, 'w, 'p) request \<Rightarrow> nat \<Rightarrow>
   error option \<times> 'a" where
  "executeRequest transport zero d req expected =
    (case transport req of
       NoReply \<Rightarrow> (Some TransportFailure, zero)
     | Reply status data \<Rightarrow>
         if status \<noteq> expected then (Some (UnexpectedStatus status expected), zero)
         else (case data of
                 None \<Rightarrow> (Some DecodingFailure, zero)
               | Some v \<Rightarrow> (None, v)))"

text \<open>
  What the nil branch of \<^verbatim>\<open>jsonFieldsR\<close> computes is a function of \<^verbatim>\<open>tagName\<close> and the
  descriptor of \<^verbatim>\<open>R\<close> alone (\<open>derived\<close>). A client's cache is valid when it is nil or
  holds that list; \<^verbatim>\<open>queryFields\<close> is unexported and only \<^verbatim>\<open>jsonFieldsR\<close> writes it.
\<close>

definition derived :: "string \<Rightarrow> rtype \<Rightarrow> panic + string list" where
  "derived tagName R =
    (case TypeOf_zero R of None \<Rightarrow> Inl nilDereference | Some t \<Rightarrow> iterateFields tagName t [])"

definition cacheValid :: "string \<Rightarrow> rtype \<Rightarrow> API \<Rightarrow> bool" where
  "cacheValid tagName R d =
    (case queryFields d of None \<Rightarrow> True | Some fs \<Rightarrow> derived tagName R = Inr fs)"

section \<open>Example read models\<close>

text \<open>
  \<^verbatim>\<open>type Article struct { ID int `json:"ident" directus:"id"`; Title string;
  Score float64 `directus:"score"` }\<close>, \<^verbatim>\<open>type User struct { Name string; Age uint8
  `directus:"age"` }\<close> and a field \<^verbatim>\<open>Author User `json:"author"`\<close>.
\<close>

definition articleT :: rtype where
  "articleT = StructT ''main.Article''
     [StructField ''ID'' [(''json'', ''ident''), (''directus'', ''id'')] (IntT ''int''),
      StructField ''Title'' [] (StringT ''string''),
      StructField ''Score'' [(''directus'', ''score'')] (Float64T ''float64'')] False None"

definition userT :: rtype where
  "userT = StructT ''main.User''
     [StructField ''Name'' [] (StringT ''string''),
      StructField ''Age'' [(''directus'', ''age'')] (Uint8T ''uint8'')] False None"

definition authorField :: structField where
  "authorField = StructField ''Author'' [(''json'', ''author'')] userT"

text \<open>
  An optional wrapper of a scalar, whose \<^verbatim>\<open>fields\<close> reports the scope itself; a field
  \<^verbatim>\<open>Authors []User `directus:"authors"`\<close>; a field \<^verbatim>\<open>Tags []*string\<close>; and an optional
  wrapper of \<^verbatim>\<open>User\<close>, whose \<^verbatim>\<open>fields\<close> reports the two paths of \<^verbatim>\<open>User\<close> below the
  scope.
\<close>

definition optionalIntT :: rtype where
  "optionalIntT = StructT ''directusapi.Optional[int]''
     [StructField ''value'' [] (IntT ''int''),
      StructField ''op'' [] (IntT ''directusapi.operation'')] False (Some (\<lambda>prefix. Inr [prefix]))"

definition authorsField :: structField where
  "authorsField = StructField ''Authors'' [(''directus'', ''authors'')] (SliceT ''[]main.User'' userT)"

definition tagsField :: structField where
  "tagsField = StructField ''Tags'' [] (SliceT ''[]*string'' (PointerT ''*string'' (StringT ''string'')))"

definition optionalUserT :: rtype where
  "optionalUserT = StructT ''directusapi.Optional[main.User]''
     [StructField ''value'' [] userT,
      StructField ''op'' [] (IntT ''directusapi.operation'')] True
     (Some (\<lambda>prefix. Inr [prefix @ ''.Name'', prefix @ ''.age'']))"

text \<open>
  A time-like struct with the fields of the standard library's \<^verbatim>\<open>time.Time\<close>, and
  \<^verbatim>\<open>type Meta struct { ID int; Created Time; Extra map[string]string }\<close> with a field
  \<^verbatim>\<open>Meta Meta\<close>.
\<close>

definition timeT :: rtype where
  "timeT = StructT ''directusapi.Time''
     [StructField ''wall'' [] (Uint64T ''uint64''),
      StructField ''ext'' [] (Int64T ''int64''),
      StructField ''loc'' [] (PointerT ''*time.Location'' (StructT ''time.Location'' [] False None))]
     True None"

definition metaT :: rtype where
  "metaT = StructT ''main.Meta''
     [StructField ''ID'' [] (IntT ''int''),
      StructField ''Created'' [] timeT,
      StructField ''Extra'' [] (MapT ''map[string]string'' (StringT ''string'') (StringT ''string''))]
     False None"

definition metaField :: structField where
  "metaField = StructField ''Meta'' [] metaT"

text \<open>Two clients: one as a caller builds it, one that holds the paths of \<^verbatim>\<open>Article\<close>.\<close>

definition clientA :: API where
  "clientA = \<lparr>Scheme = ''https'', Host = ''cms.example.org'', Namespace = ''content'',
     CollectionName = ''articles'', BearerToken = ''secret'', queryFields = None,
     debug = False, Version = V8\<rparr>"

definition clientB :: API where
  "clientB = \<lparr>Scheme = ''http'', Host = ''localhost'', Namespace = ''_'',
     CollectionName = ''posts'', BearerToken = [], queryFields = Some [''id'', ''Title'', ''score''],
     debug = True, Version = V9\<rparr>"

section \<open>Properties of the derivation\<close>

subsection \<open>The loop and the branches of \<^verbatim>\<open>structFields\<close>\<close>

lemma iterateFieldsLoop_acc:
  "iterateFieldsLoop tn fs p acc =
    (case iterateFieldsLoop tn fs p [] of Inl e \<Rightarrow> Inl e | Inr xs \<Rightarrow> Inr (acc @ xs))"
proof (induction fs arbitrary: acc)
  case Nil
  show ?case by simp
next
  case (Cons f fs)
  show ?case
  proof (cases "structFields tn f p")
    case (Inl e)
    then show ?thesis by simp
  next
    case (Inr xs)
    have "iterateFieldsLoop tn (f # fs) p acc = iterateFieldsLoop tn fs p (acc @ xs)"
      using Inr by simp
    also have "\<dots> = (case iterateFieldsLoop tn fs p [] of
        Inl e \<Rightarrow> Inl e | Inr ys \<Rightarrow> Inr ((acc @ xs) @ ys))"
      by (rule Cons.IH)
    finally have l: "iterateFieldsLoop tn (f # fs) p acc = (case iterateFieldsLoop tn fs p [] of
        Inl e \<Rightarrow> Inl e | Inr ys \<Rightarrow> Inr ((acc @ xs) @ ys))" .
    have r: "iterateFieldsLoop tn (f # fs) p [] = (case iterateFieldsLoop tn fs p [] of
        Inl e \<Rightarrow> Inl e | Inr ys \<Rightarrow> Inr (xs @ ys))"
      using Inr Cons.IH [of xs] by simp
    show ?thesis unfolding l r by (simp split: sum.splits)
  qed
qed

lemma structFields_scalar:
  assumes "Kind (Type f) \<in> scalarKinds \<union> {Map}"
  shows "structFields tn f p = Inr [scoped p (remoteName tn f)]"
  using assms
  by (auto simp: structFields.simps [of tn f p] scalarKinds_def scoped_def remoteName_def Let_def)

lemma structFields_time:
  assumes "Kind (Type f) = Struct" "isOpt (Type f) = None" "ConvertibleToTime (Type f)"
  shows "structFields tn f p = Inr [p]"
  using assms by (simp add: structFields.simps [of tn f p] Let_def)

lemma structFields_optional:
  assumes "Kind (Type f) = Struct" "isOpt (Type f) = Some m"
  shows "structFields tn f p = m (scoped p (remoteName tn f))"
  using assms by (simp add: structFields.simps [of tn f p] Let_def scoped_def remoteName_def)

lemma structFields_nested:
  assumes "Kind (Type f) = Struct" "isOpt (Type f) = None" "\<not> ConvertibleToTime (Type f)"
  shows "structFields tn f p = iterateFields tn (Type f) (scoped p (remoteName tn f))"
  using assms by (simp add: structFields.simps [of tn f p] Let_def scoped_def remoteName_def)

lemma structFields_slice_struct:
  assumes "Kind (Type f) = Slice" "Kind (Elem (Type f)) = Struct"
  shows "structFields tn f p = iterateFields tn (Elem (Type f)) (scoped p (remoteName tn f))"
  using assms by (simp add: structFields.simps [of tn f p] Let_def scoped_def remoteName_def)

lemma structFields_slice_other:
  assumes "Kind (Type f) = Slice" "Kind (Elem (Type f)) \<noteq> Struct"
  shows "structFields tn f p = Inr [scoped p (remoteName tn f)]"
  using assms by (simp add: structFields.simps [of tn f p] Let_def scoped_def remoteName_def)

lemma structFields_pointer:
  assumes "Kind (Type f) = Pointer"
  shows "structFields tn f p = Inl (Panic (Name f @ ''('' @ TypeString (Elem (Type f)) @ '','' @ p
               @ ''): pointer is not supported, use directus.Optional instead''))"
  using assms by (simp add: structFields.simps [of tn f p] Let_def)

lemma structFields_other:
  assumes "Kind (Type f) \<notin> {Struct, Slice, Pointer, Map} \<union> scalarKinds"
  shows "structFields tn f p = Inl (Panic (kindString (Kind (Type f)) @ '' not implemented''))"
  using assms by (simp add: structFields.simps [of tn f p] Let_def scalarKinds_def)

lemma iterateFieldsLoop_scalars:
  assumes "\<forall>f \<in> set fs. Kind (Type f) \<in> scalarKinds"
  shows "iterateFieldsLoop tn fs p [] = Inr (map (\<lambda>f. scoped p (remoteName tn f)) fs)"
  using assms
proof (induction fs)
  case Nil
  show ?case by simp
next
  case (Cons f fs)
  have "structFields tn f p = Inr [scoped p (remoteName tn f)]"
    using Cons.prems by (simp add: structFields_scalar)
  then have "iterateFieldsLoop tn (f # fs) p [] = iterateFieldsLoop tn fs p [scoped p (remoteName tn f)]"
    by simp
  also have "\<dots> = Inr ([scoped p (remoteName tn f)] @ map (\<lambda>f. scoped p (remoteName tn f)) fs)"
    using Cons.IH Cons.prems by (simp add: iterateFieldsLoop_acc [of tn fs p "[_]"])
  finally show ?case by simp
qed


lemma iterateFields_struct:
  "Kind t = Struct \<Longrightarrow> iterateFields tn t p = iterateFieldsLoop tn (Fields t) p []"
  by (simp add: iterateFields.simps)

subsection \<open>Time-like fields\<close>

text \<open>
  C1. The claim: a field whose type is convertible to \<^verbatim>\<open>Time\<close> (and is no optional
  wrapper) yields exactly one path, the field's remote name below the prefix, with no descent
  into the time type. The code returns the prefix itself in that branch: for the field
  \<^verbatim>\<open>Created Time `directus:"created_on"`\<close> it yields the empty path at the top level, and
  \<^verbatim>\<open>meta\<close> below the prefix \<^verbatim>\<open>meta\<close>, where the claim has \<^verbatim>\<open>created_on\<close> and
  \<^verbatim>\<open>meta.created_on\<close>. One path and no descent do hold (\<open>structFields_time\<close>).
\<close>

theorem time_field_emits_prefix_only:
  "structFields ''directus''
     (StructField ''Created'' [(''directus'', ''created_on'')]
        (StructT ''directusapi.Time'' [StructField ''wall'' [] (Uint64T ''uint64'')] True None))
     [] = Inr [[]]
   \<and> structFields ''directus''
     (StructField ''Created'' [(''directus'', ''created_on'')]
        (StructT ''directusapi.Time'' [StructField ''wall'' [] (Uint64T ''uint64'')] True None))
     ''meta'' = Inr [''meta'']"
  by (simp add: structFields_time)

subsection \<open>Scalar fields\<close>

text \<open>
  C3. For a read model that is a struct all of whose fields have a plain scalar kind, the
  derived list (the derivation from the empty prefix) is the list of the fields' remote names,
  in declaration order.
\<close>

theorem scalar_struct_paths:
  assumes "Kind R = Struct"
    and "\<forall>f \<in> set (Fields R). Kind (Type f) \<in> scalarKinds"
  shows "iterateFields tagName R [] = Inr (map (remoteName tagName) (Fields R))"
proof -
  have "iterateFields tagName R [] = iterateFieldsLoop tagName (Fields R) [] []"
    using assms(1) by (rule iterateFields_struct)
  also have "\<dots> = Inr (map (\<lambda>f. scoped [] (remoteName tagName f)) (Fields R))"
    using assms(2) by (rule iterateFieldsLoop_scalars)
  finally show ?thesis by (simp add: scoped_def)
qed

theorem scalar_struct_paths_witness:
  "Kind articleT = Struct
   \<and> list_all (\<lambda>f. Kind (Type f) \<in> scalarKinds) (Fields articleT)
   \<and> iterateFields ''directus'' articleT [] = Inr [''id'', ''Title'', ''score'']"
  using scalar_struct_paths [of articleT "''directus''"]
  by (auto simp: articleT_def scalarKinds_def remoteName_def Lookup_def)

subsection \<open>Nested structs\<close>

text \<open>
  The default branch for a struct field: the derivation of the inner struct under the prefix
  extended by the field's remote name. Where every inner field is a plain leaf, the paths are
  that scope, a dot and the inner field's remote name.
\<close>

lemma nested_struct_paths:
  assumes "Kind (Type f) = Struct"
    and "isOpt (Type f) = None"
    and "\<not> ConvertibleToTime (Type f)"
    and "Lookup (Tag f) tagName = None"
  shows "structFields tagName f prefix =
           iterateFields tagName (Type f) (if prefix = [] then Name f else prefix @ ''.'' @ Name f)
       \<and> (Name f \<noteq> [] \<and> (\<forall>g \<in> set (Fields (Type f)). Kind (Type g) \<in> scalarKinds) \<longrightarrow>
            structFields tagName f [] =
              Inr (map (\<lambda>g. Name f @ ''.'' @ remoteName tagName g) (Fields (Type f))))"
proof -
  have rn: "remoteName tagName f = Name f"
    using assms(4) by (simp add: remoteName_def)
  have step: "structFields tagName f p = iterateFields tagName (Type f) (scoped p (Name f))" for p
    using structFields_nested [OF assms(1-3), of tagName p] rn by simp
  have leaves: "structFields tagName f [] =
      Inr (map (\<lambda>g. Name f @ ''.'' @ remoteName tagName g) (Fields (Type f)))"
    if "Name f \<noteq> []" and "\<forall>g \<in> set (Fields (Type f)). Kind (Type g) \<in> scalarKinds"
  proof -
    have "structFields tagName f [] = iterateFieldsLoop tagName (Fields (Type f)) (Name f) []"
      using step [of "[]"] assms(1) by (simp add: iterateFields_struct scoped_def)
    also have "\<dots> = Inr (map (\<lambda>g. scoped (Name f) (remoteName tagName g)) (Fields (Type f)))"
      using that(2) by (rule iterateFieldsLoop_scalars)
    finally show ?thesis using that(1) by (simp add: scoped_def)
  qed
  show ?thesis using step [of prefix] leaves by (simp add: scoped_def)
qed

lemma nested_struct_paths_example:
  "Kind (Type authorField) = Struct
   \<and> isOpt (Type authorField) = None
   \<and> \<not> ConvertibleToTime (Type authorField)
   \<and> Lookup (Tag authorField) ''directus'' = None
   \<and> Name authorField \<noteq> []
   \<and> list_all (\<lambda>g. Kind (Type g) \<in> scalarKinds) (Fields (Type authorField))
   \<and> structFields ''directus'' authorField ''post''
         = iterateFields ''directus'' userT ''post.Author''
   \<and> structFields ''directus'' authorField [] = Inr [''Author.Name'', ''Author.age'']"
  using nested_struct_paths [of authorField "''directus''" "''post''"]
  by (auto simp: authorField_def userT_def scalarKinds_def remoteName_def Lookup_def)

lemma structFields_plainLeaf:
  "plainLeaf g \<Longrightarrow> structFields tn g p = Inr [scoped p (remoteName tn g)]"
  unfolding plainLeaf_def
  using structFields_scalar [of g tn p] structFields_slice_other [of g tn p] by blast

lemma iterateFieldsLoop_plainLeaves:
  assumes "\<forall>g \<in> set fs. plainLeaf g"
  shows "iterateFieldsLoop tn fs p [] = Inr (map (\<lambda>g. scoped p (remoteName tn g)) fs)"
  using assms
proof (induction fs)
  case Nil
  show ?case by simp
next
  case (Cons g fs)
  have "structFields tn g p = Inr [scoped p (remoteName tn g)]"
    using Cons.prems by (simp add: structFields_plainLeaf)
  then have "iterateFieldsLoop tn (g # fs) p [] = iterateFieldsLoop tn fs p [scoped p (remoteName tn g)]"
    by simp
  also have "\<dots> = Inr ([scoped p (remoteName tn g)] @ map (\<lambda>g. scoped p (remoteName tn g)) fs)"
    using Cons.IH Cons.prems by (simp add: iterateFieldsLoop_acc [of tn fs p "[_]"])
  finally show ?case by simp
qed

lemma nested_struct_plain_leaves:
  assumes "Kind (Type f) = Struct"
    and "isOpt (Type f) = None"
    and "\<not> ConvertibleToTime (Type f)"
    and "\<forall>g \<in> set (Fields (Type f)). plainLeaf g"
  shows "structFields tagName f prefix =
    Inr (map (\<lambda>g. scoped (scoped prefix (remoteName tagName f)) (remoteName tagName g))
          (Fields (Type f)))"
  using assms
  by (simp add: structFields_nested iterateFields_struct iterateFieldsLoop_plainLeaves)

text \<open>
  C4. The claim: for an untagged field whose type is a struct, neither time-like nor an
  optional wrapper, the derivation recurses into the inner struct under the prefix extended
  by the outer field's name, so that the paths are the outer name, a dot and the inner name
  for each leaf of the inner struct. The recursion is as claimed (\<open>nested_struct_paths\<close>),
  and so are the paths of the plain leaves (\<open>nested_struct_plain_leaves\<close>). A time-like
  leaf of the inner struct does not get its path: the time branch returns the prefix it is
  given, which is the outer field's scope. For the field \<^verbatim>\<open>Meta Meta\<close> the code yields
  \<^verbatim>\<open>Meta.ID\<close>, \<^verbatim>\<open>Meta\<close>, \<^verbatim>\<open>Meta.Extra\<close>, where the claim has \<^verbatim>\<open>Meta.Created\<close> second.
\<close>

theorem nested_time_leaf_loses_its_name:
  "structFields ''directus'' metaField [] = Inr [''Meta.ID'', ''Meta'', ''Meta.Extra'']
   \<and> structFields ''directus'' metaField [] \<noteq> Inr [''Meta.ID'', ''Meta.Created'', ''Meta.Extra'']"
proof -
  have "structFields ''directus'' metaField [] = Inr [''Meta.ID'', ''Meta'', ''Meta.Extra'']"
    by (simp add: metaField_def metaT_def timeT_def structFields_nested iterateFields_struct
        structFields_scalar structFields_time scalarKinds_def scoped_def remoteName_def Lookup_def)
  then show ?thesis by simp
qed

subsection \<open>Slices\<close>

text \<open>
  The slice branch: a slice of structs yields the derivation of the element type's fields
  under the prefix extended by the remote name, whatever the element type implements or
  converts to; this is the list of a single field of the element type, with the same name, tag
  and prefix, when the element type is neither an optional wrapper nor time-like. A slice of
  anything but structs yields the one path of the field.
\<close>

lemma slice_paths:
  assumes "Kind (Type f) = Slice"
  shows "(Kind (Elem (Type f)) = Struct \<longrightarrow>
            structFields tagName f prefix =
              iterateFields tagName (Elem (Type f)) (scoped prefix (remoteName tagName f)))
       \<and> (Kind (Elem (Type f)) = Struct \<and> isOpt (Elem (Type f)) = None
            \<and> \<not> ConvertibleToTime (Elem (Type f)) \<longrightarrow>
            structFields tagName f prefix =
              structFields tagName (StructField (Name f) (Tag f) (Elem (Type f))) prefix)
       \<and> (Kind (Elem (Type f)) \<noteq> Struct \<longrightarrow>
            structFields tagName f prefix = Inr [scoped prefix (remoteName tagName f)])"
proof (intro conjI impI)
  assume "Kind (Elem (Type f)) = Struct"
  with assms show "structFields tagName f prefix =
      iterateFields tagName (Elem (Type f)) (scoped prefix (remoteName tagName f))"
    by (rule structFields_slice_struct)
next
  assume e: "Kind (Elem (Type f)) = Struct \<and> isOpt (Elem (Type f)) = None
      \<and> \<not> ConvertibleToTime (Elem (Type f))"
  let ?g = "StructField (Name f) (Tag f) (Elem (Type f))"
  have "structFields tagName ?g prefix =
      iterateFields tagName (Type ?g) (scoped prefix (remoteName tagName ?g))"
    using e by (intro structFields_nested) simp_all
  moreover have "remoteName tagName ?g = remoteName tagName f"
    by (simp add: remoteName_def split: option.split)
  moreover have "structFields tagName f prefix =
      iterateFields tagName (Elem (Type f)) (scoped prefix (remoteName tagName f))"
    using assms e by (intro structFields_slice_struct) simp_all
  ultimately show "structFields tagName f prefix = structFields tagName ?g prefix"
    by simp
next
  assume "Kind (Elem (Type f)) \<noteq> Struct"
  with assms show "structFields tagName f prefix = Inr [scoped prefix (remoteName tagName f)]"
    by (rule structFields_slice_other)
qed

lemma slice_paths_example:
  "Kind (Type authorsField) = Slice
   \<and> Kind (Elem (Type authorsField)) = Struct
   \<and> isOpt (Elem (Type authorsField)) = None
   \<and> \<not> ConvertibleToTime (Elem (Type authorsField))
   \<and> structFields ''directus'' authorsField ''post''
       = iterateFields ''directus'' userT ''post.authors''
   \<and> structFields ''directus'' authorsField ''post''
       = structFields ''directus'' (StructField ''Authors'' [(''directus'', ''authors'')] userT) ''post''
   \<and> Kind (Type tagsField) = Slice
   \<and> Kind (Elem (Type tagsField)) \<noteq> Struct
   \<and> structFields ''directus'' tagsField ''post'' = Inr [''post.Tags'']"
  using slice_paths [of authorsField "''directus''" "''post''"]
    slice_paths [of tagsField "''directus''" "''post''"]
  by (auto simp: authorsField_def tagsField_def userT_def scoped_def remoteName_def Lookup_def)

text \<open>
  C5. The claim: a field whose type is a slice of structs yields the list a single field of
  the element type would yield, with the same remote name and prefix, and a slice of anything
  else yields one path. The second half holds (\<open>slice_paths\<close>). The first fails where the
  element type is an optional wrapper or time-like: the struct branch asks \<^verbatim>\<open>isOpt\<close> and
  \<^verbatim>\<open>ConvertibleTo\<close> before it descends, the slice branch descends without asking. For
  \<^verbatim>\<open>Votes []Optional[int]\<close> it yields the wrapper's own fields where the single field
  yields what the wrapper reports, and for \<^verbatim>\<open>Dates []Time\<close> it panics on the pointer inside
  the time struct where the single field returns.
\<close>

theorem slice_descends_into_wrapper_and_time:
  "structFields ''directus''
      (StructField ''Votes'' [] (SliceT ''[]directusapi.Optional[int]'' optionalIntT)) []
     = Inr [''Votes.value'', ''Votes.op'']
   \<and> structFields ''directus'' (StructField ''Votes'' [] optionalIntT) [] = Inr [''Votes'']
   \<and> structFields ''directus''
      (StructField ''Dates'' [] (SliceT ''[]directusapi.Time'' timeT)) ''post''
     = Inl (Panic ''loc(time.Location,post.Dates): pointer is not supported, use directus.Optional instead'')
   \<and> structFields ''directus'' (StructField ''Dates'' [] timeT) ''post'' = Inr [''post'']"
proof -
  have 1: "structFields ''directus''
      (StructField ''Votes'' [] (SliceT ''[]directusapi.Optional[int]'' optionalIntT)) []
     = Inr [''Votes.value'', ''Votes.op'']"
    by (simp add: structFields_slice_struct optionalIntT_def iterateFields_struct
        structFields_scalar scalarKinds_def scoped_def remoteName_def Lookup_def)
  have 2: "structFields ''directus'' (StructField ''Votes'' [] optionalIntT) [] = Inr [''Votes'']"
    by (simp add: structFields_optional optionalIntT_def scoped_def remoteName_def Lookup_def)
  have 3: "structFields ''directus''
      (StructField ''Dates'' [] (SliceT ''[]directusapi.Time'' timeT)) ''post''
     = Inl (Panic ''loc(time.Location,post.Dates): pointer is not supported, use directus.Optional instead'')"
    by (simp add: structFields_slice_struct timeT_def iterateFields_struct
        structFields_scalar structFields_pointer scalarKinds_def scoped_def remoteName_def
        Lookup_def)
  have 4: "structFields ''directus'' (StructField ''Dates'' [] timeT) ''post'' = Inr [''post'']"
    by (simp add: structFields_time timeT_def)
  show ?thesis using 1 2 3 4 by simp
qed

subsection \<open>Optional wrappers\<close>

text \<open>
  C6. For a field whose struct type implements \<^verbatim>\<open>isOpt\<close>, the derivation is what the
  type's method \<^verbatim>\<open>fields\<close> returns for the scope: the remote name, below the prefix when
  there is one. Nothing else is added, also when the type is time-like as well.
\<close>

theorem optional_field_paths:
  assumes "Kind (Type f) = Struct"
    and "isOpt (Type f) = Some val"
  shows "structFields tagName f prefix =
           val (if prefix = [] then remoteName tagName f
                else prefix @ ''.'' @ remoteName tagName f)"
  using structFields_optional [OF assms, of tagName prefix] by (simp add: scoped_def)

theorem optional_field_paths_witness:
  "Kind (Type (StructField ''Editor'' [(''directus'', ''editor'')] optionalUserT)) = Struct
   \<and> isOpt (Type (StructField ''Editor'' [(''directus'', ''editor'')] optionalUserT))
       = Some (\<lambda>prefix. Inr [prefix @ ''.Name'', prefix @ ''.age''])
   \<and> structFields ''directus'' (StructField ''Editor'' [(''directus'', ''editor'')] optionalUserT) []
       = Inr [''editor.Name'', ''editor.age'']
   \<and> structFields ''directus'' (StructField ''Editor'' [(''directus'', ''editor'')] optionalUserT) ''post''
       = Inr [''post.editor.Name'', ''post.editor.age'']"
  using optional_field_paths [of "StructField ''Editor'' [(''directus'', ''editor'')] optionalUserT"
      "\<lambda>prefix. Inr [prefix @ ''.Name'', prefix @ ''.age'']" "''directus''" "[]"]
    optional_field_paths [of "StructField ''Editor'' [(''directus'', ''editor'')] optionalUserT"
      "\<lambda>prefix. Inr [prefix @ ''.Name'', prefix @ ''.age'']" "''directus''" "''post''"]
  by (auto simp: optionalUserT_def remoteName_def Lookup_def)

subsection \<open>Unsupported fields\<close>

text \<open>
  C7. For a field whose type is a pointer, \<^verbatim>\<open>structFields\<close> panics with the message that
  names the field, the pointed-to type and the prefix and says to use the optional wrapper;
  it neither returns nor panics otherwise. For a field of any kind other than struct, slice,
  the scalars, map and pointer, it panics with the kind's name and \<^verbatim>\<open>not implemented\<close>.
\<close>

theorem unsupported_field_panics:
  "(Kind (Type f) = Pointer \<longrightarrow>
      structFields tagName f prefix =
        Inl (Panic (Name f @ ''('' @ TypeString (Elem (Type f)) @ '','' @ prefix
               @ ''): pointer is not supported, use directus.Optional instead'')))
   \<and> (Kind (Type f) \<notin> {Struct, Slice, Map, Pointer} \<union> scalarKinds \<longrightarrow>
      structFields tagName f prefix =
        Inl (Panic (kindString (Kind (Type f)) @ '' not implemented'')))"
  using structFields_pointer [of f tagName prefix] structFields_other [of f tagName prefix]
  by auto

theorem unsupported_field_panics_witness:
  "Kind (Type (StructField ''Owner'' [(''directus'', ''owner'')] (PointerT ''*main.User'' userT))) = Pointer
   \<and> structFields ''directus''
        (StructField ''Owner'' [(''directus'', ''owner'')] (PointerT ''*main.User'' userT)) ''post''
       = Inl (Panic ''Owner(main.User,post): pointer is not supported, use directus.Optional instead'')
   \<and> Kind (Type (StructField ''Done'' [] (ChanT ''chan bool'' (BoolT ''bool''))))
        \<notin> {Struct, Slice, Map, Pointer} \<union> scalarKinds
   \<and> structFields ''directus'' (StructField ''Done'' [] (ChanT ''chan bool'' (BoolT ''bool''))) ''post''
       = Inl (Panic ''chan not implemented'')"
  using unsupported_field_panics
      [of "StructField ''Owner'' [(''directus'', ''owner'')] (PointerT ''*main.User'' userT)"
        "''directus''" "''post''"]
    unsupported_field_panics
      [of "StructField ''Done'' [] (ChanT ''chan bool'' (BoolT ''bool''))" "''directus''" "''post''"]
  by (auto simp: userT_def scalarKinds_def)

section \<open>Properties of the client\<close>

subsection \<open>\<^verbatim>\<open>jsonFieldsR\<close> and the operations\<close>

lemma derived_articleT: "derived ''directus'' articleT = Inr [''id'', ''Title'', ''score'']"
  by (simp add: derived_def TypeOf_zero_def articleT_def iterateFields_struct structFields_scalar
      scalarKinds_def scoped_def remoteName_def Lookup_def)

lemma jsonFieldsR_nil:
  assumes "d < length s" "queryFields (s ! d) = None"
  shows "jsonFieldsR tn R s d =
    (case derived tn R of Inl e \<Rightarrow> Inl e
     | Inr fs \<Rightarrow> Inr (fs, s[d := (s ! d)\<lparr>queryFields := Some fs\<rparr>]))"
  using assms by (simp add: jsonFieldsR_def derived_def split: option.splits)

lemma jsonFieldsR_cached:
  assumes "d < length s" "queryFields (s ! d) = Some fs"
  shows "jsonFieldsR tn R s d = Inr (fs, s)"
  using assms by (simp add: jsonFieldsR_def)

lemma jsonFieldsR_articleT:
  "jsonFieldsR ''directus'' articleT (s @ [clientA]) (length s)
     = Inr ([''id'', ''Title'', ''score''],
            s @ [clientA\<lparr>queryFields := Some [''id'', ''Title'', ''score'']\<rparr>])"
  by (simp add: jsonFieldsR_nil derived_articleT clientA_def)

lemma Insert_error:
  "Insert tagName R emptyR exec s a ctx item = Inr ((r, Some e), s') \<Longrightarrow> r = emptyR"
  by (auto simp: Insert_def Let_def split: if_splits sum.splits option.splits prod.splits)

lemma Insert_ok:
  "Insert tagName R emptyR (executeRequest transport emptyR) s a ctx item = Inr ((r, None), s')
    \<Longrightarrow> \<exists>req. transport req = Reply StatusOK (Some r)"
  by (auto simp: Insert_def executeRequest_def Let_def
      split: if_splits sum.splits option.splits prod.splits reply.splits)

lemma Create_error:
  "Create tagName R emptyR exec s a ctx partials = Inr ((r, Some e), s') \<Longrightarrow> r = emptyR"
  by (auto simp: Create_def Let_def split: if_splits sum.splits option.splits prod.splits)

lemma Create_ok:
  "Create tagName R emptyR (executeRequest transport emptyR) s a ctx partials = Inr ((r, None), s')
    \<Longrightarrow> \<exists>req. transport req = Reply StatusOK (Some r)"
  by (auto simp: Create_def executeRequest_def Let_def
      split: if_splits sum.splits option.splits prod.splits reply.splits)

lemma GetByID_error:
  "GetByID tagName R emptyR formatV exec s a ctx pk = Inr ((r, Some e), s') \<Longrightarrow> r = emptyR"
  by (auto simp: GetByID_def Let_def split: if_splits sum.splits option.splits prod.splits)

lemma GetByID_ok:
  "GetByID tagName R emptyR formatV (executeRequest transport emptyR) s a ctx pk = Inr ((r, None), s')
    \<Longrightarrow> \<exists>req. transport req = Reply StatusOK (Some r)"
  by (auto simp: GetByID_def executeRequest_def Let_def
      split: if_splits sum.splits option.splits prod.splits reply.splits)

lemma Update_error:
  "Update tagName R emptyR formatV exec s a ctx pk partials = Inr ((r, Some e), s') \<Longrightarrow> r = emptyR"
  by (auto simp: Update_def Let_def split: if_splits sum.splits option.splits prod.splits)

lemma Update_ok:
  "Update tagName R emptyR formatV (executeRequest transport emptyR) s a ctx pk partials = Inr ((r, None), s')
    \<Longrightarrow> \<exists>req. transport req = Reply StatusOK (Some r)"
  by (auto simp: Update_def executeRequest_def Let_def
      split: if_splits sum.splits option.splits prod.splits reply.splits)

lemma Set_error:
  "Set tagName R emptyR formatV exec s a ctx pk item = Inr ((r, Some e), s') \<Longrightarrow> r = emptyR"
  by (auto simp: Set_def Let_def split: if_splits sum.splits option.splits prod.splits)

lemma Set_ok:
  "Set tagName R emptyR formatV (executeRequest transport emptyR) s a ctx pk item = Inr ((r, None), s')
    \<Longrightarrow> \<exists>req. transport req = Reply StatusOK (Some r)"
  by (auto simp: Set_def executeRequest_def Let_def
      split: if_splits sum.splits option.splits prod.splits reply.splits)

lemma Items_error:
  "Items tagName R asKeyValue exec s a ctx q = Inr ((rs, Some e), s') \<Longrightarrow> rs = None"
  by (auto simp: Items_def Let_def split: if_splits sum.splits option.splits prod.splits)

lemma Items_ok:
  "Items tagName R asKeyValue (executeRequest transport None) s a ctx q = Inr ((rs, None), s')
    \<Longrightarrow> \<exists>req. transport req = Reply StatusOK (Some rs)"
  by (auto simp: Items_def executeRequest_def Let_def
      split: if_splits sum.splits option.splits prod.splits reply.splits)

lemma jsonFieldsR_frame:
  assumes "jsonFieldsR tn R s d = Inr (fs, s')"
  shows "length s' = length s \<and> (\<forall>i. i \<noteq> d \<longrightarrow> s' ! i = s ! i)"
  using assms
  by (auto simp: jsonFieldsR_def split: if_splits option.splits sum.splits)

lemma copy_frame:
  assumes "jsonFieldsR tn R (s @ [s ! a]) (length s) = Inr (fs, s')" "a < length s"
  shows "s' ! a = s ! a"
  using jsonFieldsR_frame [OF assms(1)] assms(2) by (simp add: nth_append)

lemma operations_leave_caller_unchanged:
  "Insert tn R z exec s a ctx item = Inr (res, s') \<Longrightarrow> s' ! a = s ! a"
  "Create tn R z exec s a ctx partials = Inr (res, s') \<Longrightarrow> s' ! a = s ! a"
  "GetByID tn R z fmt exec s a ctx pk = Inr (res, s') \<Longrightarrow> s' ! a = s ! a"
  "Update tn R z fmt exec s a ctx pk partials = Inr (res, s') \<Longrightarrow> s' ! a = s ! a"
  "Set tn R z fmt exec s a ctx pk item = Inr (res, s') \<Longrightarrow> s' ! a = s ! a"
  "Items tn R akv execs s a ctx q = Inr (ress, s') \<Longrightarrow> s' ! a = s ! a"
  by (auto simp: Insert_def Create_def GetByID_def Update_def Set_def Items_def Let_def
      dest: copy_frame split: if_splits sum.splits option.splits prod.splits)

subsection \<open>The cache\<close>

text \<open>
  C2. The claim: the first operation on a client computes the path list and stores it in the
  client's cache, and every later operation on that client reuses it. \<^verbatim>\<open>jsonFieldsR\<close> has
  a pointer receiver and does store the list, but the operations have value receivers, so the
  struct it writes is the operation's own copy. After \<^verbatim>\<open>GetByID\<close> on the client at 0 the
  store has that client unchanged, its cache still nil, and the list in the copy at 1; a
  second \<^verbatim>\<open>GetByID\<close> on the client at 0 derives the list again, into its copy at 2.
  No operation changes the caller's client (\<open>operations_leave_caller_unchanged\<close>).
\<close>

theorem cache_not_kept_by_operations:
  "GetByID ''directus'' articleT (0::nat) (\<lambda>pk::nat. ''42'')
       (\<lambda>(d::API) (req::(unit, unit, unit) request) (st::nat). (None, 1::nat)) [clientA] 0 () 42
     = Inr ((1, None), [clientA, clientA\<lparr>queryFields := Some [''id'', ''Title'', ''score'']\<rparr>])
   \<and> queryFields ([clientA, clientA\<lparr>queryFields := Some [''id'', ''Title'', ''score'']\<rparr>] ! 0) = None
   \<and> GetByID ''directus'' articleT (0::nat) (\<lambda>pk::nat. ''42'')
       (\<lambda>(d::API) (req::(unit, unit, unit) request) (st::nat). (None, 1::nat))
       [clientA, clientA\<lparr>queryFields := Some [''id'', ''Title'', ''score'']\<rparr>] 0 () 42
     = Inr ((1, None), [clientA, clientA\<lparr>queryFields := Some [''id'', ''Title'', ''score'']\<rparr>,
                        clientA\<lparr>queryFields := Some [''id'', ''Title'', ''score'']\<rparr>])"
proof -
  have nil: "queryFields clientA = None"
    by (simp add: clientA_def)
  have 1: "jsonFieldsR ''directus'' articleT (s @ [clientA]) (length s)
      = Inr ([''id'', ''Title'', ''score''],
             s @ [clientA\<lparr>queryFields := Some [''id'', ''Title'', ''score'']\<rparr>])" for s
    by (simp add: jsonFieldsR_nil nil derived_articleT)
  show ?thesis
    using 1 [of "[clientA]"] 1 [of "[clientA, clientA\<lparr>queryFields := Some [''id'', ''Title'', ''score'']\<rparr>]"]
    by (simp add: GetByID_def nil Let_def)
qed

subsection \<open>Determinism\<close>

text \<open>
  C8. The path list \<^verbatim>\<open>jsonFieldsR\<close> returns depends on the type descriptor alone: on any
  two clients, in any stores, whose caches are valid, it returns the same list (or panics with
  the same panic), the one derived from the descriptor; and it leaves the cache valid.
\<close>

theorem derived_paths_deterministic:
  assumes "d1 < length s1" and "d2 < length s2"
    and "cacheValid tagName R (s1 ! d1)" and "cacheValid tagName R (s2 ! d2)"
  shows "map_sum id fst (jsonFieldsR tagName R s1 d1) = derived tagName R
       \<and> map_sum id fst (jsonFieldsR tagName R s2 d2) = map_sum id fst (jsonFieldsR tagName R s1 d1)
       \<and> (\<forall>fs s'. jsonFieldsR tagName R s1 d1 = Inr (fs, s') \<longrightarrow> cacheValid tagName R (s' ! d1))"
proof -
  have paths: "map_sum id fst (jsonFieldsR tagName R s d) = derived tagName R"
    if "d < length s" "cacheValid tagName R (s ! d)" for s d
  proof (cases "queryFields (s ! d)")
    case None
    then show ?thesis
      using that(1) by (simp add: jsonFieldsR_nil split: sum.splits)
  next
    case (Some fs)
    then show ?thesis
      using that by (simp add: jsonFieldsR_cached cacheValid_def)
  qed
  have kept: "cacheValid tagName R (s' ! d1)" if "jsonFieldsR tagName R s1 d1 = Inr (fs, s')" for fs s'
  proof (cases "queryFields (s1 ! d1)")
    case None
    then show ?thesis
      using that assms(1) by (auto simp: jsonFieldsR_nil cacheValid_def split: sum.splits)
  next
    case (Some gs)
    then show ?thesis
      using that assms(1,3) by (simp add: jsonFieldsR_cached)
  qed
  show ?thesis
    using paths [OF assms(1,3)] paths [OF assms(2,4)] kept by simp
qed

theorem derived_paths_deterministic_witness:
  "(0::nat) < length [clientA] \<and> (1::nat) < length [clientA, clientB]
   \<and> cacheValid ''directus'' articleT ([clientA] ! 0)
   \<and> cacheValid ''directus'' articleT ([clientA, clientB] ! 1)
   \<and> map_sum id fst (jsonFieldsR ''directus'' articleT [clientA] 0) = Inr [''id'', ''Title'', ''score'']
   \<and> map_sum id fst (jsonFieldsR ''directus'' articleT [clientA, clientB] 1)
       = map_sum id fst (jsonFieldsR ''directus'' articleT [clientA] 0)"
  using derived_paths_deterministic [of 0 "[clientA]" 1 "[clientA, clientB]" "''directus''" articleT]
  by (simp add: cacheValid_def clientA_def clientB_def derived_articleT)

subsection \<open>Errors\<close>

text \<open>
  C9. Whenever \<^verbatim>\<open>Insert\<close>, \<^verbatim>\<open>Create\<close>, \<^verbatim>\<open>GetByID\<close>, \<^verbatim>\<open>Update\<close> or \<^verbatim>\<open>Set\<close>
  returns an error, the read model it returns is the zero value, and whenever \<^verbatim>\<open>Items\<close>
  returns an error its slice is nil: this holds for every \<^verbatim>\<open>executeRequest\<close>. With
  \<^verbatim>\<open>executeRequest\<close> as the spec has it, a result without an error is the data of a reply
  to a request that came back with the expected status 200.
\<close>

theorem error_returns_zero_value:
  "(\<forall>r e s'. Insert tagName R emptyR exec s a ctx item = Inr ((r, Some e), s') \<longrightarrow> r = emptyR)
 \<and> (\<forall>r e s'. Create tagName R emptyR exec s a ctx partials = Inr ((r, Some e), s') \<longrightarrow> r = emptyR)
 \<and> (\<forall>r e s'. GetByID tagName R emptyR formatV exec s a ctx pk = Inr ((r, Some e), s')
        \<longrightarrow> r = emptyR)
 \<and> (\<forall>r e s'. Update tagName R emptyR formatV exec s a ctx pk partials = Inr ((r, Some e), s')
        \<longrightarrow> r = emptyR)
 \<and> (\<forall>r e s'. Set tagName R emptyR formatV exec s a ctx pk item = Inr ((r, Some e), s')
        \<longrightarrow> r = emptyR)
 \<and> (\<forall>rs e s'. Items tagName R asKeyValue execs s a ctx q = Inr ((rs, Some e), s')
        \<longrightarrow> rs = None)
 \<and> (\<forall>r s'. Insert tagName R emptyR (executeRequest transport emptyR) s a ctx item
          = Inr ((r, None), s')
        \<longrightarrow> (\<exists>req. transport req = Reply StatusOK (Some r)))
 \<and> (\<forall>r s'. Create tagName R emptyR (executeRequest transport emptyR) s a ctx partials
          = Inr ((r, None), s')
        \<longrightarrow> (\<exists>req. transport req = Reply StatusOK (Some r)))
 \<and> (\<forall>r s'. GetByID tagName R emptyR formatV (executeRequest transport emptyR) s a ctx pk
          = Inr ((r, None), s')
        \<longrightarrow> (\<exists>req. transport req = Reply StatusOK (Some r)))
 \<and> (\<forall>r s'. Update tagName R emptyR formatV (executeRequest transport emptyR) s a ctx pk partials
          = Inr ((r, None), s')
        \<longrightarrow> (\<exists>req. transport req = Reply StatusOK (Some r)))
 \<and> (\<forall>r s'. Set tagName R emptyR formatV (executeRequest transport emptyR) s a ctx pk item
          = Inr ((r, None), s')
        \<longrightarrow> (\<exists>req. transport req = Reply StatusOK (Some r)))
 \<and> (\<forall>rs s'. Items tagName R asKeyValue (executeRequest transports None) s a ctx q
          = Inr ((rs, None), s')
        \<longrightarrow> (\<exists>req. transports req = Reply StatusOK (Some rs)))"
proof (intro conjI allI impI)
  fix r e s'
  show "r = emptyR" if "Insert tagName R emptyR exec s a ctx item = Inr ((r, Some e), s')"
    using that by (rule Insert_error)
  show "r = emptyR" if "Create tagName R emptyR exec s a ctx partials = Inr ((r, Some e), s')"
    using that by (rule Create_error)
  show "r = emptyR" if "GetByID tagName R emptyR formatV exec s a ctx pk = Inr ((r, Some e), s')"
    using that by (rule GetByID_error)
  show "r = emptyR"
    if "Update tagName R emptyR formatV exec s a ctx pk partials = Inr ((r, Some e), s')"
    using that by (rule Update_error)
  show "r = emptyR" if "Set tagName R emptyR formatV exec s a ctx pk item = Inr ((r, Some e), s')"
    using that by (rule Set_error)
next
  fix rs e s'
  show "rs = None" if "Items tagName R asKeyValue execs s a ctx q = Inr ((rs, Some e), s')"
    using that by (rule Items_error)
next
  fix r s'
  show "\<exists>req. transport req = Reply StatusOK (Some r)"
    if "Insert tagName R emptyR (executeRequest transport emptyR) s a ctx item
          = Inr ((r, None), s')"
    using that by (rule Insert_ok)
  show "\<exists>req. transport req = Reply StatusOK (Some r)"
    if "Create tagName R emptyR (executeRequest transport emptyR) s a ctx partials
          = Inr ((r, None), s')"
    using that by (rule Create_ok)
  show "\<exists>req. transport req = Reply StatusOK (Some r)"
    if "GetByID tagName R emptyR formatV (executeRequest transport emptyR) s a ctx pk
          = Inr ((r, None), s')"
    using that by (rule GetByID_ok)
  show "\<exists>req. transport req = Reply StatusOK (Some r)"
    if "Update tagName R emptyR formatV (executeRequest transport emptyR) s a ctx pk partials
          = Inr ((r, None), s')"
    using that by (rule Update_ok)
  show "\<exists>req. transport req = Reply StatusOK (Some r)"
    if "Set tagName R emptyR formatV (executeRequest transport emptyR) s a ctx pk item
          = Inr ((r, None), s')"
    using that by (rule Set_ok)
next
  fix rs s'
  show "\<exists>req. transports req = Reply StatusOK (Some rs)"
    if "Items tagName R asKeyValue (executeRequest transports None) s a ctx q
          = Inr ((rs, None), s')"
    using that by (rule Items_ok)
qed

theorem error_returns_zero_value_witness:
  "Insert ''directus'' articleT (0::nat) (\<lambda>d req st. (Some TransportFailure, 7)) [clientA] 0 () ()
     = Inr ((0, Some (Errorf ''execute insert request: '' TransportFailure)),
            [clientA, clientA\<lparr>queryFields := Some [''id'', ''Title'', ''score'']\<rparr>])
 \<and> Create ''directus'' articleT (0::nat) (\<lambda>d req st. (Some TransportFailure, 7)) [clientA] 0 () ()
     = Inr ((0, Some (Errorf ''execute create request: '' TransportFailure)),
            [clientA, clientA\<lparr>queryFields := Some [''id'', ''Title'', ''score'']\<rparr>])
 \<and> GetByID ''directus'' articleT (0::nat) (\<lambda>pk::nat. ''42'')
       (\<lambda>d req st. (Some TransportFailure, 7)) [clientA] 0 () 42
     = Inr ((0, Some (Errorf ''execute get by id request: '' TransportFailure)),
            [clientA, clientA\<lparr>queryFields := Some [''id'', ''Title'', ''score'']\<rparr>])
 \<and> Update ''directus'' articleT (0::nat) (\<lambda>pk::nat. ''42'')
       (\<lambda>d req st. (Some TransportFailure, 7)) [clientA] 0 () 42 ()
     = Inr ((0, Some (Errorf ''execute update request: '' TransportFailure)),
            [clientA, clientA\<lparr>queryFields := Some [''id'', ''Title'', ''score'']\<rparr>])
 \<and> Set ''directus'' articleT (0::nat) (\<lambda>pk::nat. ''42'')
       (\<lambda>d req st. (Some TransportFailure, 7)) [clientA] 0 () 42 ()
     = Inr ((0, Some (Errorf ''execute set request: '' TransportFailure)),
            [clientA, clientA\<lparr>queryFields := Some [''id'', ''Title'', ''score'']\<rparr>])
 \<and> Items ''directus'' articleT (\<lambda>q v. Some [''limit'' \<mapsto> ''10''])
       (\<lambda>d req st. (Some DecodingFailure, Some [7::nat])) [clientA] 0 () ()
     = Inr ((None, Some (Errorf ''execute items request: '' DecodingFailure)),
            [clientA, clientA\<lparr>queryFields := Some [''id'', ''Title'', ''score'']\<rparr>])
 \<and> Insert ''directus'' articleT (0::nat) (executeRequest (\<lambda>req. Reply 200 (Some 7)) 0)
       [clientA] 0 () ()
     = Inr ((7, None), [clientA, clientA\<lparr>queryFields := Some [''id'', ''Title'', ''score'']\<rparr>])
 \<and> Create ''directus'' articleT (0::nat) (executeRequest (\<lambda>req. Reply 200 (Some 7)) 0)
       [clientA] 0 () ()
     = Inr ((7, None), [clientA, clientA\<lparr>queryFields := Some [''id'', ''Title'', ''score'']\<rparr>])
 \<and> GetByID ''directus'' articleT (0::nat) (\<lambda>pk::nat. ''42'')
       (executeRequest (\<lambda>req. Reply 200 (Some 7)) 0) [clientA] 0 () 42
     = Inr ((7, None), [clientA, clientA\<lparr>queryFields := Some [''id'', ''Title'', ''score'']\<rparr>])
 \<and> Update ''directus'' articleT (0::nat) (\<lambda>pk::nat. ''42'')
       (executeRequest (\<lambda>req. Reply 200 (Some 7)) 0) [clientA] 0 () 42 ()
     = Inr ((7, None), [clientA, clientA\<lparr>queryFields := Some [''id'', ''Title'', ''score'']\<rparr>])
 \<and> Set ''directus'' articleT (0::nat) (\<lambda>pk::nat. ''42'')
       (executeRequest (\<lambda>req. Reply 200 (Some 7)) 0) [clientA] 0 () 42 ()
     = Inr ((7, None), [clientA, clientA\<lparr>queryFields := Some [''id'', ''Title'', ''score'']\<rparr>])
 \<and> Items ''directus'' articleT (\<lambda>q v. Some [''limit'' \<mapsto> ''10''])
       (executeRequest (\<lambda>req. Reply 200 (Some (Some [7::nat, 8]))) None) [clientA] 0 () ()
     = Inr ((Some [7, 8], None),
            [clientA, clientA\<lparr>queryFields := Some [''id'', ''Title'', ''score'']\<rparr>])
 \<and> (\<exists>req :: (unit, unit, unit) request.
        (\<lambda>req. Reply 200 (Some (7::nat))) req = Reply StatusOK (Some 7))"
  using error_returns_zero_value
      [where tagName = "''directus''" and R = articleT and emptyR = "0::nat"
        and exec = "\<lambda>d req st. (Some TransportFailure, 7)" and s = "[clientA]" and a = 0
        and ctx = "()" and item = "()" and partials = "()" and formatV = "\<lambda>pk::nat. ''42''"
        and pk = 42 and asKeyValue = "\<lambda>q v. Some [''limit'' \<mapsto> ''10'']"
        and execs = "\<lambda>d req st. (Some DecodingFailure, Some [7::nat])" and q = "()"
        and transport = "\<lambda>req. Reply 200 (Some 7)"
        and transports = "\<lambda>req. Reply 200 (Some (Some [7::nat, 8]))"]
    jsonFieldsR_articleT [of "[clientA]"]
  by (simp add: Insert_def Create_def GetByID_def Update_def Set_def Items_def Let_def
      executeRequest_def StatusOK_def)

subsection \<open>The parameters of \<^verbatim>\<open>Items\<close>\<close>

text \<open>
  C10. When \<^verbatim>\<open>asKeyValue\<close> returns a map and the derivation returns, \<^verbatim>\<open>Items\<close> passes
  \<^verbatim>\<open>executeRequest\<close> one request, whatever \<^verbatim>\<open>executeRequest\<close> is: its parameter
  \<^verbatim>\<open>fields\<close> is the derived paths joined by commas, also when the translation had a
  \<^verbatim>\<open>fields\<close> entry of its own, and every other parameter is as translated.
\<close>

theorem Items_fields_parameter:
  assumes "a < length s"
    and "asKeyValue q (Version (s ! a)) = Some qv"
    and "jsonFieldsR tagName R (s @ [s ! a]) (length s) = Inr (fs, s')"
  shows "\<exists>req. reqParams req ''fields'' = Some (Join fs '','')
           \<and> (\<forall>k. k \<noteq> ''fields'' \<longrightarrow> reqParams req k = qv k)
           \<and> (\<forall>executeRequest.
                Items tagName R asKeyValue executeRequest s a ctx q =
                  (case executeRequest (s' ! length s) req StatusOK of
                     (Some e, respBody) \<Rightarrow>
                       Inr ((None, Some (Errorf ''execute items request: '' e)), s')
                   | (None, respBody) \<Rightarrow> Inr ((respBody, None), s')))"
proof -
  let ?u = "Scheme (s ! a) @ ''://'' @ Host (s ! a) @ ''/'' @ Namespace (s ! a)
      @ ''/items/'' @ CollectionName (s ! a)"
  let ?req = "\<lparr>reqCtx = ctx, reqMethod = MethodGet, reqURL = ?u,
      reqParams = qv(''fields'' \<mapsto> Join fs '',''), reqBody = NoBody\<rparr>"
  show ?thesis
  proof (intro exI [of _ ?req] conjI allI impI)
    show "reqParams ?req ''fields'' = Some (Join fs '','')"
      by simp
  next
    fix k :: string
    assume "k \<noteq> ''fields''"
    then show "reqParams ?req k = qv k"
      by simp
  next
    fix executeRequest
    show "Items tagName R asKeyValue executeRequest s a ctx q =
      (case executeRequest (s' ! length s) ?req StatusOK of
         (Some e, respBody) \<Rightarrow> Inr ((None, Some (Errorf ''execute items request: '' e)), s')
       | (None, respBody) \<Rightarrow> Inr ((respBody, None), s'))"
      using assms by (simp add: Items_def Let_def split: prod.splits option.splits)
  qed
qed

theorem Items_fields_parameter_witness:
  "(0::nat) < length [clientA]
   \<and> (\<lambda>q v. Some [''fields'' \<mapsto> ''*'', ''limit'' \<mapsto> ''10'']) () (Version ([clientA] ! 0))
       = Some [''fields'' \<mapsto> ''*'', ''limit'' \<mapsto> ''10'']
   \<and> jsonFieldsR ''directus'' articleT ([clientA] @ [[clientA] ! 0]) (length [clientA])
       = Inr ([''id'', ''Title'', ''score''],
              [clientA, clientA\<lparr>queryFields := Some [''id'', ''Title'', ''score'']\<rparr>])
   \<and> Items ''directus'' articleT (\<lambda>q v. Some [''fields'' \<mapsto> ''*'', ''limit'' \<mapsto> ''10''])
        (\<lambda>d req st. (None, Some [reqParams req ''fields'', reqParams req ''limit'',
                                  reqParams req ''offset'']))
        [clientA] 0 () ()
       = Inr ((Some [Some ''id,Title,score'', Some ''10'', None], None),
              [clientA, clientA\<lparr>queryFields := Some [''id'', ''Title'', ''score'']\<rparr>])"
  using Items_fields_parameter [of 0 "[clientA]"
      "\<lambda>q v. Some [''fields'' \<mapsto> ''*'', ''limit'' \<mapsto> ''10'']" "()"
      "[''fields'' \<mapsto> ''*'', ''limit'' \<mapsto> ''10'']" "''directus''" articleT
      "[''id'', ''Title'', ''score'']"
      "[clientA, clientA\<lparr>queryFields := Some [''id'', ''Title'', ''score'']\<rparr>]" "()"]
    jsonFieldsR_articleT [of "[clientA]"]
  by (simp add: Items_def Let_def)

end
